theory Spec2Isabelle
  imports Main "HOL-Library.Multiset"
begin

section \<open>JavaScript values and objects\<close>

text \<open>
  The chat server of \<^verbatim>\<open>src/server/server.js\<close> receives its payloads as JavaScript
  objects whose message fields are text. A field value is a string, \<^verbatim>\<open>null\<close>, or
  \<^verbatim>\<open>undefined\<close> (the field is absent). Other JSON values (numbers, booleans, nested
  objects) are outside this model.
\<close>

datatype jsval = JUndefined | JNull | JStr string

text \<open>JavaScript truthiness: \<^verbatim>\<open>undefined\<close>, \<^verbatim>\<open>null\<close> and the empty string are falsy.\<close>

fun truthy :: "jsval \<Rightarrow> bool" where
  "truthy (JStr s) = (s \<noteq> [])"
| "truthy JNull = False"
| "truthy JUndefined = False"

text \<open>The operator \<^verbatim>\<open>a || b\<close>.\<close>

definition js_or :: "jsval \<Rightarrow> jsval \<Rightarrow> jsval" where
  "js_or a b = (if truthy a then a else b)"

text \<open>A default in a destructuring pattern, \<^verbatim>\<open>{ x = d }\<close>: it applies to \<^verbatim>\<open>undefined\<close> only.\<close>

definition js_default :: "jsval \<Rightarrow> jsval \<Rightarrow> jsval" where
  "js_default v d = (if v = JUndefined then d else v)"

text \<open>An object is a list of properties; reading a missing property gives \<^verbatim>\<open>undefined\<close>.\<close>

type_synonym jsobj = "(string \<times> jsval) list"

definition get_prop :: "jsobj \<Rightarrow> string \<Rightarrow> jsval" where
  "get_prop obj k = (case map_of obj k of None \<Rightarrow> JUndefined | Some v \<Rightarrow> v)"

section \<open>The messages table\<close>

text \<open>
  The table created by \<^verbatim>\<open>initDB\<close>: \<^verbatim>\<open>id SERIAL PRIMARY KEY\<close> and six nullable
  \<^verbatim>\<open>TEXT\<close> columns. \<open>None\<close> is SQL \<^verbatim>\<open>NULL\<close>.
\<close>

record row =
  r_id :: nat
  r_text :: "string option"
  r_sender_username :: "string option"
  r_receiver_username :: "string option"
  r_timestamp :: "string option"
  r_type :: "string option"
  r_file_url :: "string option"

text \<open>
  A query parameter as the \<^verbatim>\<open>pg\<close> driver sends it: \<^verbatim>\<open>null\<close> and \<^verbatim>\<open>undefined\<close> are
  both \<^verbatim>\<open>NULL\<close>.
\<close>

fun prepareValue :: "jsval \<Rightarrow> string option" where
  "prepareValue (JStr s) = Some s"
| "prepareValue JNull = None"
| "prepareValue JUndefined = None"

text \<open>A column as the driver hands it back to JavaScript.\<close>

fun column_value :: "string option \<Rightarrow> jsval" where
  "column_value None = JNull"
| "column_value (Some s) = JStr s"

text \<open>
  SQL comparisons are three-valued: \<open>None\<close> is \<^verbatim>\<open>UNKNOWN\<close>, and a comparison with
  \<^verbatim>\<open>NULL\<close> is \<^verbatim>\<open>UNKNOWN\<close>. A \<^verbatim>\<open>WHERE\<close> clause keeps the rows whose condition is
  \<^verbatim>\<open>TRUE\<close>.
\<close>

fun sql_eq :: "string option \<Rightarrow> string option \<Rightarrow> bool option" where
  "sql_eq (Some a) (Some b) = Some (a = b)"
| "sql_eq None y = None"
| "sql_eq (Some a) None = None"

fun sql_and :: "bool option \<Rightarrow> bool option \<Rightarrow> bool option" where
  "sql_and (Some False) y = Some False"
| "sql_and (Some True) y = y"
| "sql_and None (Some False) = Some False"
| "sql_and None y = None"

fun sql_or :: "bool option \<Rightarrow> bool option \<Rightarrow> bool option" where
  "sql_or (Some True) y = Some True"
| "sql_or (Some False) y = y"
| "sql_or None (Some True) = Some True"
| "sql_or None y = None"

text \<open>The two statements of the \<^verbatim>\<open>getMessages\<close> handler, with their parameters.\<close>

datatype sql = SelectGlobal | SelectDirect jsval jsval jsval jsval

text \<open>\<^verbatim>\<open>WHERE receiver_username IS NULL\<close>\<close>

definition where_global :: "row \<Rightarrow> bool" where
  "where_global r = (r_receiver_username r = None)"

text \<open>
  \<^verbatim>\<open>WHERE (sender_username = $1 AND receiver_username = $2)
      OR (sender_username = $3 AND receiver_username = $4)\<close>
\<close>

definition where_direct :: "jsval \<Rightarrow> jsval \<Rightarrow> jsval \<Rightarrow> jsval \<Rightarrow> row \<Rightarrow> bool" where
  "where_direct p1 p2 p3 p4 r =
     (sql_or
        (sql_and (sql_eq (r_sender_username r) (prepareValue p1))
                 (sql_eq (r_receiver_username r) (prepareValue p2)))
        (sql_and (sql_eq (r_sender_username r) (prepareValue p3))
                 (sql_eq (r_receiver_username r) (prepareValue p4)))
      = Some True)"

text \<open>\<^verbatim>\<open>SELECT * FROM messages WHERE ... ORDER BY id ASC\<close>\<close>

fun select_messages :: "sql \<Rightarrow> row list \<Rightarrow> row list" where
  "select_messages SelectGlobal tbl = sort_key r_id (filter where_global tbl)"
| "select_messages (SelectDirect p1 p2 p3 p4) tbl =
     sort_key r_id (filter (where_direct p1 p2 p3 p4) tbl)"

section \<open>The socket server\<close>

text \<open>
  A socket is named by its \<^verbatim>\<open>socket.id\<close>. The record a client receives with
  \<^verbatim>\<open>receiveMessage\<close> is \<^verbatim>\<open>newMessage\<close>.
\<close>

type_synonym socket = string

record newMessage =
  m_id :: nat
  m_text :: jsval
  m_sender_username :: jsval
  m_receiver_username :: jsval
  m_timestamp :: string
  m_type :: jsval
  m_file_url :: jsval

datatype emitted = receiveMessage newMessage | history "row list"

text \<open>
  What the server does that can be observed: a row is appended to the table, an event is
  sent to a set of sockets, an error is written with \<^verbatim>\<open>console.error\<close>.
\<close>

datatype effect = Inserted row | Emit "socket set" emitted | ConsoleError

text \<open>
  The variables that the callback of \<^verbatim>\<open>sendMessage\<close> closes over: the destructured
  payload and the timestamp.
\<close>

record closure =
  c_text :: jsval
  c_sender_username :: jsval
  c_receiver_username :: jsval
  c_timestamp :: string
  c_type :: jsval
  c_file_url :: jsval

text \<open>
  A call of \<^verbatim>\<open>pool.query\<close> that has not called back yet: \<^verbatim>\<open>db.run\<close> with the
  \<^verbatim>\<open>INSERT\<close> of \<^verbatim>\<open>sendMessage\<close>, or \<^verbatim>\<open>db.all\<close> with a \<^verbatim>\<open>SELECT\<close> of
  \<^verbatim>\<open>getMessages\<close> on a socket.
\<close>

datatype query = Run closure | All socket sql

text \<open>
  The state: the connected sockets, the rooms of the socket.io adapter, the
  \<^verbatim>\<open>username\<close> attribute the \<^verbatim>\<open>join\<close> handler sets on a socket, the table with
  the next value of its \<^verbatim>\<open>SERIAL\<close> sequence, the queries in flight, and the effects so
  far, oldest first.
\<close>

record server =
  sockets :: "socket set"
  rooms :: "jsval \<Rightarrow> socket set"
  username :: "socket \<Rightarrow> jsval"
  messages :: "row list"
  next_id :: nat
  pending :: "query list"
  trace :: "effect list"

definition init :: server where
  "init = \<lparr>sockets = {}, rooms = (\<lambda>_. {}), username = (\<lambda>_. JUndefined),
           messages = [], next_id = 1, pending = [], trace = []\<rparr>"

subsection \<open>socket.io\<close>

text \<open>
  A new socket is in the room named by its own id. A socket that disconnects leaves every
  room. \<^verbatim>\<open>socket.join(room)\<close> adds the socket to a room and removes it from none.
\<close>

definition connection :: "socket \<Rightarrow> server \<Rightarrow> server" where
  "connection sock s =
     s\<lparr>sockets := insert sock (sockets s),
       rooms := (rooms s)(JStr sock := insert sock (rooms s (JStr sock)))\<rparr>"

definition disconnect :: "socket \<Rightarrow> server \<Rightarrow> server" where
  "disconnect sock s =
     s\<lparr>sockets := sockets s - {sock},
       rooms := (\<lambda>room. rooms s room - {sock}),
       username := (username s)(sock := JUndefined)\<rparr>"

definition socket_join :: "socket \<Rightarrow> jsval \<Rightarrow> server \<Rightarrow> server" where
  "socket_join sock room s = s\<lparr>rooms := (rooms s)(room := insert sock (rooms s room))\<rparr>"

text \<open>
  \<^verbatim>\<open>io.emit\<close> reaches every connected socket, \<^verbatim>\<open>io.to(a).to(b).emit\<close> the sockets of
  room \<open>a\<close> or room \<open>b\<close>, \<^verbatim>\<open>socket.emit\<close> the socket itself, if it is still connected.
\<close>

definition io_emit :: "emitted \<Rightarrow> server \<Rightarrow> server" where
  "io_emit e s = s\<lparr>trace := trace s @ [Emit (sockets s) e]\<rparr>"

definition io_to_to_emit :: "jsval \<Rightarrow> jsval \<Rightarrow> emitted \<Rightarrow> server \<Rightarrow> server" where
  "io_to_to_emit a b e s = s\<lparr>trace := trace s @ [Emit (rooms s a \<union> rooms s b) e]\<rparr>"

definition socket_emit :: "socket \<Rightarrow> emitted \<Rightarrow> server \<Rightarrow> server" where
  "socket_emit sock e s = s\<lparr>trace := trace s @ [Emit ({sock} \<inter> sockets s) e]\<rparr>"

definition console_error :: "server \<Rightarrow> server" where
  "console_error s = s\<lparr>trace := trace s @ [ConsoleError]\<rparr>"

subsection \<open>The handlers\<close>

text \<open>\<^verbatim>\<open>socket.on('join', (username) => { socket.join(username); socket.username = username; })\<close>\<close>

definition join :: "socket \<Rightarrow> jsval \<Rightarrow> server \<Rightarrow> server" where
  "join sock name s = (socket_join sock name s)\<lparr>username := (username s)(sock := name)\<rparr>"

text \<open>
  \<^verbatim>\<open>getMessages\<close> chooses the statement and hands it to \<^verbatim>\<open>db.all\<close>; the callback runs
  when the query is done, with an error or with the rows.
\<close>

definition statement :: "jsobj \<Rightarrow> sql" where
  "statement data =
     (let type = get_prop data ''type''; mate = get_prop data ''mate''; me = get_prop data ''me''
      in if type = JStr ''global'' then SelectGlobal else SelectDirect me mate mate me)"

definition getMessages :: "socket \<Rightarrow> jsobj \<Rightarrow> server \<Rightarrow> server" where
  "getMessages sock data s = s\<lparr>pending := pending s @ [All sock (statement data)]\<rparr>"

datatype error = PersistenceError

fun getMessages_callback :: "socket \<Rightarrow> error + row list \<Rightarrow> server \<Rightarrow> server" where
  "getMessages_callback sock (Inl err) s = s"
| "getMessages_callback sock (Inr rows) s = socket_emit sock (history rows) s"

text \<open>
  The options of a time format: each field that is to be shown, with its style. The
  handler of \<^verbatim>\<open>sendMessage\<close> asks for \<^verbatim>\<open>{ hour: '2-digit', minute: '2-digit' }\<close>.
\<close>

datatype style = TwoDigit | Numeric

record options =
  hour :: "style option"
  minute :: "style option"
  second :: "style option"

definition two_digit :: "nat \<Rightarrow> string" where
  "two_digit n = [''0123456789'' ! (n div 10 mod 10), ''0123456789'' ! (n mod 10)]"

fun show_field :: "style \<Rightarrow> nat \<Rightarrow> string" where
  "show_field TwoDigit n = two_digit n"
| "show_field Numeric n = (if n < 10 then [''0123456789'' ! n] else two_digit n)"

fun shown :: "style option \<Rightarrow> nat \<Rightarrow> string list" where
  "shown None n = []"
| "shown (Some st) n = [show_field st n]"

fun colons :: "string list \<Rightarrow> string" where
  "colons [] = []"
| "colons [x] = x"
| "colons (x # y # ys) = x @ '':'' @ colons (y # ys)"

text \<open>
  The hour and the minute of the local wall clock, for a clock reading in milliseconds
  since the epoch and the offset of the server's time zone from UTC in minutes.
\<close>

definition local_hour :: "int \<Rightarrow> nat \<Rightarrow> nat" where
  "local_hour offset now = nat ((int (now div 60000) + offset) mod 1440) div 60"

definition local_minute :: "int \<Rightarrow> nat \<Rightarrow> nat" where
  "local_minute offset now = nat ((int (now div 60000) + offset) mod 1440) mod 60"

text \<open>
  Modelled from the spec: \<^verbatim>\<open>Date.prototype.toLocaleTimeString\<close> belongs to the
  JavaScript runtime and is not in the repository. The specification gives its result as
  the wall clock in local display format, hour:minute. The model shows the fields that the
  options name, in the order hour, minute, second, with a colon between them.
\<close>

definition toLocaleTimeString :: "int \<Rightarrow> options \<Rightarrow> nat \<Rightarrow> string" where
  "toLocaleTimeString offset opts now =
     colons (shown (hour opts) (local_hour offset now) @
             shown (minute opts) (local_minute offset now) @
             shown (second opts) (now div 1000 mod 60))"

text \<open>
  \<^verbatim>\<open>sendMessage\<close> destructures the payload, reads the clock, and hands the
  \<^verbatim>\<open>INSERT\<close> to \<^verbatim>\<open>db.run\<close>. The clock reading \<open>now\<close> comes with the event.
  The runtime's formatter is the parameter \<open>format\<close> of the server; the handler calls
  it with its options, \<^verbatim>\<open>{ hour: '2-digit', minute: '2-digit' }\<close>.
\<close>

definition destructure :: "jsobj \<Rightarrow> string \<Rightarrow> closure" where
  "destructure data ts =
     \<lparr>c_text = get_prop data ''text'',
      c_sender_username = get_prop data ''sender_username'',
      c_receiver_username = get_prop data ''receiver_username'',
      c_timestamp = ts,
      c_type = js_default (get_prop data ''type'') (JStr ''text''),
      c_file_url = js_default (get_prop data ''file_url'') JNull\<rparr>"

definition sendMessage :: "(options \<Rightarrow> nat \<Rightarrow> string) \<Rightarrow> nat \<Rightarrow> jsobj \<Rightarrow> server \<Rightarrow> server" where
  "sendMessage format now data s =
     s\<lparr>pending := pending s @
         [Run (destructure data
            (format \<lparr>hour = Some TwoDigit, minute = Some TwoDigit, second = None\<rparr> now))]\<rparr>"

text \<open>
  The row of
  \<^verbatim>\<open>[text || '', sender_username, receiver_username || null, timestamp, type, file_url]\<close>
  with the id the sequence gives it.
\<close>

definition insert_row :: "nat \<Rightarrow> closure \<Rightarrow> row" where
  "insert_row i c =
     \<lparr>r_id = i,
      r_text = prepareValue (js_or (c_text c) (JStr '''')),
      r_sender_username = prepareValue (c_sender_username c),
      r_receiver_username = prepareValue (js_or (c_receiver_username c) JNull),
      r_timestamp = Some (c_timestamp c),
      r_type = prepareValue (c_type c),
      r_file_url = prepareValue (c_file_url c)\<rparr>"

definition new_message :: "nat \<Rightarrow> closure \<Rightarrow> newMessage" where
  "new_message i c =
     \<lparr>m_id = i,
      m_text = c_text c,
      m_sender_username = c_sender_username c,
      m_receiver_username = c_receiver_username c,
      m_timestamp = c_timestamp c,
      m_type = c_type c,
      m_file_url = c_file_url c\<rparr>"

fun sendMessage_callback :: "closure \<Rightarrow> error + nat \<Rightarrow> server \<Rightarrow> server" where
  "sendMessage_callback c (Inl err) s = console_error s"
| "sendMessage_callback c (Inr lastID) s =
     (if \<not> truthy (c_receiver_username c)
      then io_emit (receiveMessage (new_message lastID c)) s
      else io_to_to_emit (c_receiver_username c) (c_sender_username c)
             (receiveMessage (new_message lastID c)) s)"

subsection \<open>The database answering\<close>

text \<open>
  A query in flight is done when the database has answered. A statement that fails
  changes nothing in the table. An \<^verbatim>\<open>INSERT ... RETURNING id\<close> that succeeds appends its
  row under the next id of the sequence and answers with that id; a \<^verbatim>\<open>SELECT\<close> that
  succeeds answers with the rows of the table as it is then.
\<close>

definition db_insert :: "closure \<Rightarrow> server \<Rightarrow> server" where
  "db_insert c s =
     s\<lparr>messages := messages s @ [insert_row (next_id s) c],
       next_id := Suc (next_id s),
       trace := trace s @ [Inserted (insert_row (next_id s) c)]\<rparr>"

fun answer :: "query \<Rightarrow> bool \<Rightarrow> server \<Rightarrow> server" where
  "answer (Run c) False s = sendMessage_callback c (Inl PersistenceError) s"
| "answer (Run c) True s = sendMessage_callback c (Inr (next_id s)) (db_insert c s)"
| "answer (All sock q) False s = getMessages_callback sock (Inl PersistenceError) s"
| "answer (All sock q) True s = getMessages_callback sock (Inr (select_messages q (messages s))) s"

subsection \<open>Events\<close>

text \<open>
  The server is driven by events: a socket connects or disconnects, a connected socket
  sends \<^verbatim>\<open>join\<close>, \<^verbatim>\<open>getMessages\<close> or \<^verbatim>\<open>sendMessage\<close>, or the database answers the
  \<open>k\<close>-th query in flight, with success or with an error. Queries may be answered in
  any order. An event that cannot happen (from a socket that is not connected, for a query
  that is not in flight) leaves the state as it is.
\<close>

datatype event =
    Connect socket
  | Disconnect socket
  | Join socket jsval
  | GetMessages socket jsobj
  | SendMessage socket jsobj nat
  | Done nat bool

fun step :: "(options \<Rightarrow> nat \<Rightarrow> string) \<Rightarrow> server \<Rightarrow> event \<Rightarrow> server" where
  "step f s (Connect sock) = (if sock \<in> sockets s then s else connection sock s)"
| "step f s (Disconnect sock) = (if sock \<in> sockets s then disconnect sock s else s)"
| "step f s (Join sock name) = (if sock \<in> sockets s then join sock name s else s)"
| "step f s (GetMessages sock data) =
     (if sock \<in> sockets s then getMessages sock data s else s)"
| "step f s (SendMessage sock data now) =
     (if sock \<in> sockets s then sendMessage f now data s else s)"
| "step f s (Done k ok) =
     (if k < length (pending s)
      then answer (pending s ! k) ok (s\<lparr>pending := take k (pending s) @ drop (Suc k) (pending s)\<rparr>)
      else s)"

definition run :: "(options \<Rightarrow> nat \<Rightarrow> string) \<Rightarrow> server \<Rightarrow> event list \<Rightarrow> server" where
  "run f s evs = foldl (step f) s evs"

section \<open>Notions of the specification\<close>

text \<open>
  A live connection, in the words of the specification: a connected socket that a
  \<^verbatim>\<open>join\<close> has given a username.
\<close>

definition live_connections :: "server \<Rightarrow> socket set" where
  "live_connections s =
     {sock \<in> sockets s. case username s sock of JStr name \<Rightarrow> True | _ \<Rightarrow> False}"

text \<open>The messages between two usernames, in either direction.\<close>

definition between :: "string \<Rightarrow> string \<Rightarrow> row \<Rightarrow> bool" where
  "between a b r =
     ((r_sender_username r = Some a \<and> r_receiver_username r = Some b) \<or>
      (r_sender_username r = Some b \<and> r_receiver_username r = Some a))"

text \<open>The row that the \<^verbatim>\<open>INSERT\<close> of a dispatched message has written.\<close>

definition row_of_message :: "newMessage \<Rightarrow> row" where
  "row_of_message m =
     \<lparr>r_id = m_id m,
      r_text = prepareValue (js_or (m_text m) (JStr '''')),
      r_sender_username = prepareValue (m_sender_username m),
      r_receiver_username = prepareValue (js_or (m_receiver_username m) JNull),
      r_timestamp = Some (m_timestamp m),
      r_type = prepareValue (m_type m),
      r_file_url = prepareValue (m_file_url m)\<rparr>"

text \<open>
  A trace keeps persistence before delivery when every \<^verbatim>\<open>receiveMessage\<close> in it comes
  after the insertion of the row of that message. \<open>R\<close> holds the rows inserted so far.
\<close>

fun persisted_first :: "row set \<Rightarrow> effect list \<Rightarrow> bool" where
  "persisted_first R [] = True"
| "persisted_first R (Inserted r # es) = persisted_first (insert r R) es"
| "persisted_first R (Emit T (receiveMessage m) # es) =
     (row_of_message m \<in> R \<and> persisted_first R es)"
| "persisted_first R (Emit T (history rows) # es) = persisted_first R es"
| "persisted_first R (ConsoleError # es) = persisted_first R es"

fun inserted :: "effect list \<Rightarrow> row list" where
  "inserted [] = []"
| "inserted (Inserted r # es) = r # inserted es"
| "inserted (Emit T e # es) = inserted es"
| "inserted (ConsoleError # es) = inserted es"

section \<open>Example runs\<close>

text \<open>The formatter of a server whose local time is UTC.\<close>

definition hh_mm :: "options \<Rightarrow> nat \<Rightarrow> string" where
  "hh_mm = toLocaleTimeString 0"

text \<open>Three sockets connect and join as alice, bob and carol.\<close>

definition three_joined :: "event list" where
  "three_joined =
     [Connect ''X'', Connect ''Y'', Connect ''Z'',
      Join ''X'' (JStr ''alice''), Join ''Y'' (JStr ''bob''), Join ''Z'' (JStr ''carol'')]"

definition hi_bob :: jsobj where
  "hi_bob = [(''text'', JStr ''hi''), (''sender_username'', JStr ''alice''),
            (''receiver_username'', JStr ''bob'')]"

definition hi_empty :: jsobj where
  "hi_empty = [(''text'', JStr ''hi''), (''sender_username'', JStr ''alice''),
              (''receiver_username'', JStr '''')]"

definition hi_all :: jsobj where
  "hi_all = [(''text'', JStr ''hi''), (''sender_username'', JStr ''alice'')]"

definition hi_null :: jsobj where
  "hi_null = [(''text'', JNull), (''sender_username'', JStr ''alice''),
             (''receiver_username'', JStr ''bob''), (''type'', JStr ''file''),
             (''file_url'', JStr ''/uploads/2.png'')]"

definition photo :: jsobj where
  "photo = [(''sender_username'', JStr ''alice''), (''receiver_username'', JStr ''bob''),
           (''type'', JStr ''file''), (''file_url'', JStr ''/uploads/1.png''),
           (''timestamp'', JStr ''23:59'')]"


section \<open>Basic facts\<close>

lemmas handler_defs = connection_def disconnect_def socket_join_def join_def getMessages_def
  sendMessage_def io_emit_def io_to_to_emit_def socket_emit_def console_error_def db_insert_def

lemma run_Cons: "run f s (ev # evs) = run f (step f s ev) evs"
  by (simp add: run_def)

lemma run_append: "run f s (xs @ ys) = run f (run f s xs) ys"
  by (simp add: run_def)

lemma run_snoc: "run f s (evs @ [ev]) = step f (run f s evs) ev"
  by (simp add: run_def)

lemma answer_fields [simp]:
  "sockets (answer q ok s) = sockets s"
  "rooms (answer q ok s) = rooms s"
  "username (answer q ok s) = username s"
  "pending (answer q ok s) = pending s"
  by (cases q; cases ok; simp add: handler_defs)+

lemma destructure_simps [simp]:
  "c_text (destructure data ts) = get_prop data ''text''"
  "c_sender_username (destructure data ts) = get_prop data ''sender_username''"
  "c_receiver_username (destructure data ts) = get_prop data ''receiver_username''"
  "c_timestamp (destructure data ts) = ts"
  "c_type (destructure data ts) = js_default (get_prop data ''type'') (JStr ''text'')"
  "c_file_url (destructure data ts) = js_default (get_prop data ''file_url'') JNull"
  by (simp_all add: destructure_def)

text \<open>The handlers of \<^verbatim>\<open>sendMessage\<close> and \<^verbatim>\<open>getMessages\<close> only put a query in flight.\<close>

lemma sendMessage_enqueues:
  "sock \<in> sockets s \<Longrightarrow>
   step f s (SendMessage sock data now) =
     s\<lparr>pending := pending s @
         [Run (destructure data
            (f \<lparr>hour = Some TwoDigit, minute = Some TwoDigit, second = None\<rparr> now))]\<rparr>"
  by (simp add: sendMessage_def)

lemma getMessages_enqueues:
  "sock \<in> sockets s \<Longrightarrow>
   step f s (GetMessages sock data) = s\<lparr>pending := pending s @ [All sock (statement data)]\<rparr>"
  by (simp add: getMessages_def)

text \<open>What a successful \<^verbatim>\<open>INSERT\<close> adds to the trace.\<close>

lemma step_Done_Run_ok:
  "k < length (pending s) \<Longrightarrow> pending s ! k = Run c \<Longrightarrow>
   trace (step f s (Done k True)) = trace s @
     [Inserted (insert_row (next_id s) c),
      Emit (if truthy (c_receiver_username c)
            then rooms s (c_receiver_username c) \<union> rooms s (c_sender_username c)
            else sockets s)
           (receiveMessage (new_message (next_id s) c))]"
  by (simp add: handler_defs)

text \<open>Every step only appends to the trace, and what it does never depends on the trace.\<close>

lemma step_trace_extends: "\<exists>es. trace (step f s ev) = trace s @ es"
proof (cases ev)
  case (Done k ok)
  show ?thesis
  proof (cases "k < length (pending s)")
    case True
    then show ?thesis unfolding Done
      by (cases "pending s ! k"; cases ok) (simp_all add: handler_defs)
  next
    case False
    then show ?thesis unfolding Done by simp
  qed
qed (simp_all add: handler_defs)

lemma run_trace_extends: "\<exists>es. trace (run f s evs) = trace s @ es"
proof (induction evs arbitrary: s)
  case Nil
  show ?case by (simp add: run_def)
next
  case (Cons ev evs)
  obtain e1 where e1: "trace (step f s ev) = trace s @ e1"
    using step_trace_extends by blast
  obtain e2 where "trace (run f (step f s ev) evs) = trace (step f s ev) @ e2"
    using Cons.IH by blast
  with e1 show ?case by (simp add: run_Cons del: step.simps)
qed

lemma step_trace_indep:
  "step f (s\<lparr>trace := t\<rparr>) ev =
     (step f s ev)\<lparr>trace := t @ drop (length (trace s)) (trace (step f s ev))\<rparr>"
proof (cases ev)
  case (Done k ok)
  show ?thesis
  proof (cases "k < length (pending s)")
    case True
    then show ?thesis unfolding Done
      by (cases "pending s ! k"; cases ok) (simp_all add: handler_defs)
  next
    case False
    then show ?thesis unfolding Done by simp
  qed
qed (simp_all add: handler_defs)

lemma run_trace_indep:
  "run f (s\<lparr>trace := t\<rparr>) evs =
     (run f s evs)\<lparr>trace := t @ drop (length (trace s)) (trace (run f s evs))\<rparr>"
proof (induction evs arbitrary: s t)
  case Nil
  show ?case by (simp add: run_def)
next
  case (Cons ev evs)
  obtain e1 where e1: "trace (step f s ev) = trace s @ e1"
    using step_trace_extends by blast
  obtain e2 where e2: "trace (run f (step f s ev) evs) = trace (step f s ev) @ e2"
    using run_trace_extends by blast
  have "run f (s\<lparr>trace := t\<rparr>) (ev # evs) = run f ((step f s ev)\<lparr>trace := t @ e1\<rparr>) evs"
    by (simp add: run_Cons step_trace_indep e1 del: step.simps)
  also have "\<dots> = (run f (step f s ev) evs)\<lparr>trace := (t @ e1) @ e2\<rparr>"
    by (simp add: Cons.IH e2)
  finally show ?case
    by (simp add: run_Cons e1 e2 del: step.simps)
qed

text \<open>A socket stays connected, and stays in its rooms, until it disconnects.\<close>

lemma step_keeps_socket:
  "sock \<in> sockets s \<Longrightarrow> ev \<noteq> Disconnect sock \<Longrightarrow> sock \<in> sockets (step f s ev)"
  by (cases ev) (auto simp: handler_defs)

lemma step_keeps_room:
  "sock \<in> rooms s room \<Longrightarrow> ev \<noteq> Disconnect sock \<Longrightarrow> sock \<in> rooms (step f s ev) room"
  by (cases ev) (auto simp: handler_defs)

lemma run_keeps_socket:
  "sock \<in> sockets s \<Longrightarrow> Disconnect sock \<notin> set evs \<Longrightarrow> sock \<in> sockets (run f s evs)"
  unfolding run_def
  by (induction evs arbitrary: s) (auto simp: step_keeps_socket simp del: step.simps)

lemma run_keeps_room:
  "sock \<in> rooms s room \<Longrightarrow> Disconnect sock \<notin> set evs \<Longrightarrow> sock \<in> rooms (run f s evs) room"
  unfolding run_def
  by (induction evs arbitrary: s) (auto simp: step_keeps_room simp del: step.simps)

lemma join_rooms: "sock \<in> sockets s \<Longrightarrow> sock \<in> rooms (step f s (Join sock u)) u"
  by (simp add: handler_defs)

text \<open>The three-valued connectives, read where they are \<^verbatim>\<open>TRUE\<close>.\<close>

lemma sql_and_True: "(sql_and x y = Some True) = (x = Some True \<and> y = Some True)"
  by (induction x y rule: sql_and.induct) auto

lemma sql_or_True: "(sql_or x y = Some True) = (x = Some True \<or> y = Some True)"
  by (induction x y rule: sql_or.induct) auto

lemma sql_eq_True: "(sql_eq x y = Some True) = (\<exists>a. x = Some a \<and> y = Some a)"
  by (induction x y rule: sql_eq.induct) auto

lemma where_direct_iff:
  "where_direct p1 p2 p3 p4 r =
     ((\<exists>a b. r_sender_username r = Some a \<and> prepareValue p1 = Some a \<and>
             r_receiver_username r = Some b \<and> prepareValue p2 = Some b) \<or>
      (\<exists>a b. r_sender_username r = Some a \<and> prepareValue p3 = Some a \<and>
             r_receiver_username r = Some b \<and> prepareValue p4 = Some b))"
  unfolding where_direct_def sql_or_True sql_and_True sql_eq_True by blast

lemma where_direct_strings:
  "where_direct (JStr a) (JStr b) (JStr b) (JStr a) = between a b"
  by (rule ext) (auto simp: where_direct_iff between_def)

lemma where_direct_no_null: "r_receiver_username r = None \<Longrightarrow> \<not> where_direct p1 p2 p3 p4 r"
  by (simp add: where_direct_iff)

text \<open>Persistence before delivery, over traces put together.\<close>

lemma inserted_append: "inserted (a @ b) = inserted a @ inserted b"
  by (induction a rule: inserted.induct) simp_all

lemma persisted_first_append:
  "persisted_first R (a @ b) =
     (persisted_first R a \<and> persisted_first (R \<union> set (inserted a)) b)"
  by (induction R a rule: persisted_first.induct) simp_all

lemma row_of_new_message: "row_of_message (new_message i c) = insert_row i c"
  by (simp add: row_of_message_def new_message_def insert_row_def)

lemma step_persisted_first:
  assumes "persisted_first R (trace s)" and "inserted (trace s) = messages s"
  shows "persisted_first R (trace (step f s ev)) \<and>
         inserted (trace (step f s ev)) = messages (step f s ev)"
proof (cases ev)
  case (Done k ok)
  show ?thesis
  proof (cases "k < length (pending s)")
    case True
    then show ?thesis unfolding Done using assms
      by (cases "pending s ! k"; cases ok)
         (simp_all add: handler_defs persisted_first_append inserted_append row_of_new_message)
  next
    case False
    then show ?thesis unfolding Done using assms by simp
  qed
qed (use assms in \<open>simp_all add: handler_defs\<close>)

text \<open>The definitions that evaluate a run on concrete events.\<close>

lemmas eval_defs = run_def init_def handler_defs statement_def destructure_def get_prop_def
  js_default_def js_or_def insert_row_def new_message_def hh_mm_def toLocaleTimeString_def local_hour_def local_minute_def two_digit_def
  three_joined_def hi_bob_def hi_empty_def hi_all_def hi_null_def photo_def Let_def


section \<open>Delivery of a sent message\<close>

text \<open>
  Claim C1, as the code has it. When the \<^verbatim>\<open>INSERT\<close> of a \<^verbatim>\<open>sendMessage\<close> succeeds
  and the payload's receiver is a non-empty string, the message is dispatched once, to
  exactly the sockets that are, at that moment, in the room of the sender's username or in
  the room of the receiver's username.
\<close>

theorem direct_dispatch:
  assumes "k < length (pending s)"
    and "pending s ! k = Run (destructure data ts)"
    and "truthy (get_prop data ''receiver_username'')"
  shows "trace (step f s (Done k True)) = trace s @
     [Inserted (insert_row (next_id s) (destructure data ts)),
      Emit (rooms s (get_prop data ''sender_username'') \<union>
            rooms s (get_prop data ''receiver_username''))
           (receiveMessage (new_message (next_id s) (destructure data ts)))]"
  using assms by (simp add: step_Done_Run_ok Un_commute del: step.simps)

theorem direct_dispatch_witness:
  "0 < length (pending (run hh_mm init (three_joined @ [SendMessage ''X'' hi_bob 45296000]))) \<and>
   pending (run hh_mm init (three_joined @ [SendMessage ''X'' hi_bob 45296000])) ! 0 =
     Run (destructure hi_bob ''12:34'') \<and>
   truthy (get_prop hi_bob ''receiver_username'') \<and>
   trace (step hh_mm (run hh_mm init (three_joined @ [SendMessage ''X'' hi_bob 45296000]))
           (Done 0 True)) =
     [Inserted \<lparr>r_id = 1, r_text = Some ''hi'', r_sender_username = Some ''alice'',
                r_receiver_username = Some ''bob'', r_timestamp = Some ''12:34'',
                r_type = Some ''text'', r_file_url = None\<rparr>,
      Emit {''X'', ''Y''}
        (receiveMessage \<lparr>m_id = 1, m_text = JStr ''hi'', m_sender_username = JStr ''alice'',
           m_receiver_username = JStr ''bob'', m_timestamp = ''12:34'',
           m_type = JStr ''text'', m_file_url = JNull\<rparr>)]"
  using direct_dispatch [of 0 "run hh_mm init (three_joined @ [SendMessage ''X'' hi_bob 45296000])"
      hi_bob "''12:34''" hh_mm]
  by (simp add: eval_defs)

text \<open>
  Claim C1 as stated fails for a receiver that is not \<^verbatim>\<open>null\<close> but empty: the handler
  tests \<^verbatim>\<open>!receiver_username\<close>, so the message goes to every connected socket, also to
  carol's, which is in neither room.
\<close>

theorem direct_dispatch_counterexample:
  "get_prop hi_empty ''receiver_username'' = JStr '''' \<and>
   pending (run hh_mm init (three_joined @ [SendMessage ''X'' hi_empty 45296000])) ! 0 =
     Run (destructure hi_empty ''12:34'') \<and>
   rooms (run hh_mm init (three_joined @ [SendMessage ''X'' hi_empty 45296000]))
       (get_prop hi_empty ''sender_username'') \<union>
     rooms (run hh_mm init (three_joined @ [SendMessage ''X'' hi_empty 45296000]))
       (get_prop hi_empty ''receiver_username'') = {''X''} \<and>
   trace (step hh_mm (run hh_mm init (three_joined @ [SendMessage ''X'' hi_empty 45296000]))
           (Done 0 True)) =
     [Inserted \<lparr>r_id = 1, r_text = Some ''hi'', r_sender_username = Some ''alice'',
                r_receiver_username = None, r_timestamp = Some ''12:34'',
                r_type = Some ''text'', r_file_url = None\<rparr>,
      Emit {''X'', ''Y'', ''Z''}
        (receiveMessage \<lparr>m_id = 1, m_text = JStr ''hi'', m_sender_username = JStr ''alice'',
           m_receiver_username = JStr '''', m_timestamp = ''12:34'',
           m_type = JStr ''text'', m_file_url = JNull\<rparr>)] \<and>
   {''X'', ''Y'', ''Z''} \<noteq> {''X''}"
  by (simp add: eval_defs) auto

text \<open>
  Claim C2, as the code has it. When the \<^verbatim>\<open>INSERT\<close> of a \<^verbatim>\<open>sendMessage\<close> succeeds
  and the payload has no receiver (it is absent, \<^verbatim>\<open>null\<close> or empty), the message is
  dispatched once, to exactly the sockets connected at that moment, whether they have
  joined under a username or not.
\<close>

theorem broadcast_dispatch:
  assumes "k < length (pending s)"
    and "pending s ! k = Run (destructure data ts)"
    and "\<not> truthy (get_prop data ''receiver_username'')"
  shows "trace (step f s (Done k True)) = trace s @
     [Inserted (insert_row (next_id s) (destructure data ts)),
      Emit (sockets s) (receiveMessage (new_message (next_id s) (destructure data ts)))]"
  using assms by (simp add: step_Done_Run_ok del: step.simps)

theorem broadcast_dispatch_witness:
  "0 < length (pending (run hh_mm init (three_joined @ [SendMessage ''X'' hi_all 45296000]))) \<and>
   pending (run hh_mm init (three_joined @ [SendMessage ''X'' hi_all 45296000])) ! 0 =
     Run (destructure hi_all ''12:34'') \<and>
   \<not> truthy (get_prop hi_all ''receiver_username'') \<and>
   trace (step hh_mm (run hh_mm init (three_joined @ [SendMessage ''X'' hi_all 45296000]))
           (Done 0 True)) =
     [Inserted \<lparr>r_id = 1, r_text = Some ''hi'', r_sender_username = Some ''alice'',
                r_receiver_username = None, r_timestamp = Some ''12:34'',
                r_type = Some ''text'', r_file_url = None\<rparr>,
      Emit {''X'', ''Y'', ''Z''}
        (receiveMessage \<lparr>m_id = 1, m_text = JStr ''hi'', m_sender_username = JStr ''alice'',
           m_receiver_username = JUndefined, m_timestamp = ''12:34'',
           m_type = JStr ''text'', m_file_url = JNull\<rparr>)]"
  using broadcast_dispatch [of 0 "run hh_mm init (three_joined @ [SendMessage ''X'' hi_all 45296000])"
      hi_all "''12:34''" hh_mm]
  by (simp add: eval_defs) auto

text \<open>
  Claim C2 as stated fails when a socket has connected and never joined: it is not a live
  connection in the specification's sense, and \<^verbatim>\<open>io.emit\<close> reaches it all the same.
\<close>

theorem broadcast_dispatch_counterexample:
  "get_prop hi_all ''receiver_username'' = JUndefined \<and>
   live_connections (run hh_mm init [Connect ''X'', SendMessage ''X'' hi_all 45296000]) = {} \<and>
   trace (step hh_mm (run hh_mm init [Connect ''X'', SendMessage ''X'' hi_all 45296000])
           (Done 0 True)) =
     [Inserted \<lparr>r_id = 1, r_text = Some ''hi'', r_sender_username = Some ''alice'',
                r_receiver_username = None, r_timestamp = Some ''12:34'',
                r_type = Some ''text'', r_file_url = None\<rparr>,
      Emit {''X''}
        (receiveMessage \<lparr>m_id = 1, m_text = JStr ''hi'', m_sender_username = JStr ''alice'',
           m_receiver_username = JUndefined, m_timestamp = ''12:34'',
           m_type = JStr ''text'', m_file_url = JNull\<rparr>)] \<and>
   {''X''} \<noteq> live_connections (run hh_mm init [Connect ''X'', SendMessage ''X'' hi_all 45296000])"
  by (simp add: eval_defs live_connections_def)


section \<open>Failure of persistence\<close>

text \<open>
  Claim C3. When the \<^verbatim>\<open>INSERT\<close> of a \<^verbatim>\<open>sendMessage\<close> fails, the server writes
  the error with \<^verbatim>\<open>console.error\<close> and does nothing else: no event is emitted to any
  socket, the sender included, the table is unchanged, and the query is no longer in
  flight. Whatever happens afterwards, the server goes on exactly as if the message had
  never been sent, the one logged error apart; so no later history holds the message.
\<close>

theorem insert_failure_dropped:
  assumes "k < length (pending s)" and "pending s ! k = Run c"
  shows "trace (step f s (Done k False)) = trace s @ [ConsoleError] \<and>
    messages (step f s (Done k False)) = messages s \<and>
    pending (step f s (Done k False)) = take k (pending s) @ drop (Suc k) (pending s) \<and>
    run f (step f s (Done k False)) evs =
      (run f (s\<lparr>pending := take k (pending s) @ drop (Suc k) (pending s)\<rparr>) evs)
        \<lparr>trace := trace s @ ConsoleError #
           drop (length (trace s))
             (trace (run f (s\<lparr>pending := take k (pending s) @ drop (Suc k) (pending s)\<rparr>) evs))\<rparr>"
proof -
  have "step f s (Done k False) =
      (s\<lparr>pending := take k (pending s) @ drop (Suc k) (pending s)\<rparr>)
        \<lparr>trace := trace s @ [ConsoleError]\<rparr>"
    using assms by (simp add: console_error_def)
  then show ?thesis
    by (simp add: run_trace_indep del: step.simps)
qed

theorem insert_failure_dropped_witness:
  "0 < length (pending (run hh_mm init (three_joined @ [SendMessage ''X'' hi_bob 45296000]))) \<and>
   pending (run hh_mm init (three_joined @ [SendMessage ''X'' hi_bob 45296000])) ! 0 =
     Run (destructure hi_bob ''12:34'') \<and>
   trace (step hh_mm (run hh_mm init (three_joined @ [SendMessage ''X'' hi_bob 45296000]))
           (Done 0 False)) = [ConsoleError] \<and>
   messages (step hh_mm (run hh_mm init (three_joined @ [SendMessage ''X'' hi_bob 45296000]))
           (Done 0 False)) = [] \<and>
   trace (run hh_mm
           (step hh_mm (run hh_mm init (three_joined @ [SendMessage ''X'' hi_bob 45296000]))
             (Done 0 False))
           [GetMessages ''Y'' [(''type'', JStr ''direct''), (''me'', JStr ''bob''),
              (''mate'', JStr ''alice'')], Done 0 True]) =
     [ConsoleError, Emit {''Y''} (history [])]"
  using insert_failure_dropped [of 0
      "run hh_mm init (three_joined @ [SendMessage ''X'' hi_bob 45296000])"
      "destructure hi_bob ''12:34''" hh_mm
      "[GetMessages ''Y'' [(''type'', JStr ''direct''), (''me'', JStr ''bob''),
          (''mate'', JStr ''alice'')], Done 0 True]"]
  by (simp add: eval_defs)

text \<open>
  Claim C8. When the \<^verbatim>\<open>SELECT\<close> of a history request fails, nothing is emitted, to the
  requesting socket or to any other, and nothing is logged.
\<close>

theorem history_failure_silent:
  assumes "k < length (pending s)" and "pending s ! k = All sock q"
  shows "trace (step f s (Done k False)) = trace s"
  using assms by simp

theorem history_failure_silent_witness:
  "0 < length (pending (run hh_mm init [Connect ''X'', GetMessages ''X'' [(''type'', JStr ''global'')]])) \<and>
   pending (run hh_mm init [Connect ''X'', GetMessages ''X'' [(''type'', JStr ''global'')]]) ! 0 =
     All ''X'' SelectGlobal \<and>
   trace (step hh_mm (run hh_mm init [Connect ''X'', GetMessages ''X'' [(''type'', JStr ''global'')]])
           (Done 0 False)) = []"
  using history_failure_silent [of 0
      "run hh_mm init [Connect ''X'', GetMessages ''X'' [(''type'', JStr ''global'')]]"
      "''X''" SelectGlobal hh_mm]
  by (simp add: eval_defs)

section \<open>Persistence before delivery\<close>

text \<open>
  Claim C4. In every run of the server from its start, each \<^verbatim>\<open>receiveMessage\<close> in the
  trace comes after the insertion of the row of that very message, and the rows inserted
  are the rows of the table: no message is delivered that has not been persisted first.
\<close>

theorem persisted_before_delivered:
  "persisted_first {} (trace (run f init evs)) \<and>
   inserted (trace (run f init evs)) = messages (run f init evs)"
proof (induction evs rule: rev_induct)
  case Nil
  show ?case by (simp add: run_def init_def)
next
  case (snoc ev evs)
  then show ?case
    unfolding run_snoc using step_persisted_first by blast
qed

theorem persisted_before_delivered_witness:
  "persisted_first {}
     (trace (run hh_mm init (three_joined @
        [SendMessage ''X'' hi_bob 45296000, SendMessage ''Y'' hi_all 45296000,
         Done 1 True, Done 0 False]))) \<and>
   messages (run hh_mm init (three_joined @
        [SendMessage ''X'' hi_bob 45296000, SendMessage ''Y'' hi_all 45296000,
         Done 1 True, Done 0 False])) =
     [\<lparr>r_id = 1, r_text = Some ''hi'', r_sender_username = Some ''alice'',
       r_receiver_username = None, r_timestamp = Some ''12:34'',
       r_type = Some ''text'', r_file_url = None\<rparr>] \<and>
   inserted (trace (run hh_mm init (three_joined @
        [SendMessage ''X'' hi_bob 45296000, SendMessage ''Y'' hi_all 45296000,
         Done 1 True, Done 0 False]))) =
     [\<lparr>r_id = 1, r_text = Some ''hi'', r_sender_username = Some ''alice'',
       r_receiver_username = None, r_timestamp = Some ''12:34'',
       r_type = Some ''text'', r_file_url = None\<rparr>]"
  using persisted_before_delivered [of hh_mm "three_joined @
        [SendMessage ''X'' hi_bob 45296000, SendMessage ''Y'' hi_all 45296000,
         Done 1 True, Done 0 False]"]
  by (simp add: eval_defs)


section \<open>History\<close>

text \<open>
  Claim C5. A history request whose type is not \<^verbatim>\<open>'global'\<close>, for the usernames
  \<open>a\<close> (\<^verbatim>\<open>me\<close>) and \<open>b\<close> (\<^verbatim>\<open>mate\<close>), is answered, when its \<^verbatim>\<open>SELECT\<close> succeeds,
  with exactly the rows of the table sent by \<open>a\<close> to \<open>b\<close> or by \<open>b\<close> to \<open>a\<close>, in
  ascending order of id, in one \<^verbatim>\<open>history\<close> event that goes to the requesting socket and
  to no other.
\<close>

theorem direct_history:
  assumes "get_prop data ''type'' \<noteq> JStr ''global''"
    and "get_prop data ''me'' = JStr a" and "get_prop data ''mate'' = JStr b"
    and "k < length (pending s)"
    and "pending s ! k = All sock (statement data)"
  shows "trace (step f s (Done k True)) = trace s @
      [Emit ({sock} \<inter> sockets s)
         (history (sort_key r_id (filter (between a b) (messages s))))] \<and>
    set (sort_key r_id (filter (between a b) (messages s))) =
      {r. r \<in> set (messages s) \<and> between a b r} \<and>
    mset (sort_key r_id (filter (between a b) (messages s))) =
      mset (filter (between a b) (messages s)) \<and>
    sorted (map r_id (sort_key r_id (filter (between a b) (messages s))))"
proof -
  have "pending s ! k = All sock (SelectDirect (JStr a) (JStr b) (JStr b) (JStr a))"
    using assms by (simp add: statement_def Let_def)
  then show ?thesis
    using assms(4) by (simp add: socket_emit_def where_direct_strings)
qed

theorem direct_history_witness:
  "get_prop [(''type'', JStr ''direct''), (''me'', JStr ''alice''), (''mate'', JStr ''bob'')] ''type''
     \<noteq> JStr ''global'' \<and>
   pending (run hh_mm init (three_joined @
       [SendMessage ''X'' hi_bob 45296000, SendMessage ''Z'' hi_all 45296000,
        SendMessage ''Y'' [(''text'', JStr ''yo''), (''sender_username'', JStr ''bob''),
          (''receiver_username'', JStr ''alice'')] 45296000,
        Done 2 True, Done 1 True, Done 0 True,
        GetMessages ''X'' [(''type'', JStr ''direct''), (''me'', JStr ''alice''),
          (''mate'', JStr ''bob'')]])) ! 0 =
     All ''X'' (statement [(''type'', JStr ''direct''), (''me'', JStr ''alice''),
          (''mate'', JStr ''bob'')]) \<and>
   drop 6 (trace (step hh_mm (run hh_mm init (three_joined @
       [SendMessage ''X'' hi_bob 45296000, SendMessage ''Z'' hi_all 45296000,
        SendMessage ''Y'' [(''text'', JStr ''yo''), (''sender_username'', JStr ''bob''),
          (''receiver_username'', JStr ''alice'')] 45296000,
        Done 2 True, Done 1 True, Done 0 True,
        GetMessages ''X'' [(''type'', JStr ''direct''), (''me'', JStr ''alice''),
          (''mate'', JStr ''bob'')]])) (Done 0 True))) =
     [Emit {''X''} (history
        [\<lparr>r_id = 1, r_text = Some ''yo'', r_sender_username = Some ''bob'',
          r_receiver_username = Some ''alice'', r_timestamp = Some ''12:34'',
          r_type = Some ''text'', r_file_url = None\<rparr>,
         \<lparr>r_id = 3, r_text = Some ''hi'', r_sender_username = Some ''alice'',
          r_receiver_username = Some ''bob'', r_timestamp = Some ''12:34'',
          r_type = Some ''text'', r_file_url = None\<rparr>])]"
  using direct_history [of "[(''type'', JStr ''direct''), (''me'', JStr ''alice''),
          (''mate'', JStr ''bob'')]" "''alice''" "''bob''" 0
      "run hh_mm init (three_joined @
       [SendMessage ''X'' hi_bob 45296000, SendMessage ''Z'' hi_all 45296000,
        SendMessage ''Y'' [(''text'', JStr ''yo''), (''sender_username'', JStr ''bob''),
          (''receiver_username'', JStr ''alice'')] 45296000,
        Done 2 True, Done 1 True, Done 0 True,
        GetMessages ''X'' [(''type'', JStr ''direct''), (''me'', JStr ''alice''),
          (''mate'', JStr ''bob'')]])" "''X''" hh_mm]
  by (simp add: eval_defs between_def)

text \<open>
  Claim C6. A row with a receiver is in no answer to a global history request, and a row
  without a receiver is in no answer to a direct one, whatever usernames the request
  names.
\<close>

theorem global_direct_partition:
  "(r_receiver_username r \<noteq> None \<longrightarrow> get_prop data ''type'' = JStr ''global'' \<longrightarrow>
      r \<notin> set (select_messages (statement data) tbl)) \<and>
   (r_receiver_username r = None \<longrightarrow> get_prop data ''type'' \<noteq> JStr ''global'' \<longrightarrow>
      r \<notin> set (select_messages (statement data) tbl))"
  by (auto simp: statement_def Let_def where_global_def where_direct_no_null)

theorem global_direct_partition_witness:
  "r_receiver_username (insert_row 1 (destructure hi_bob ''12:34'')) \<noteq> None \<and>
   get_prop [(''type'', JStr ''global'')] ''type'' = JStr ''global'' \<and>
   insert_row 1 (destructure hi_bob ''12:34'') \<notin>
     set (select_messages (statement [(''type'', JStr ''global'')])
            [insert_row 1 (destructure hi_bob ''12:34''),
             insert_row 2 (destructure hi_all ''12:35'')]) \<and>
   r_receiver_username (insert_row 2 (destructure hi_all ''12:35'')) = None \<and>
   get_prop [(''me'', JStr ''alice'')] ''type'' \<noteq> JStr ''global'' \<and>
   insert_row 2 (destructure hi_all ''12:35'') \<notin>
     set (select_messages (statement [(''me'', JStr ''alice'')])
            [insert_row 1 (destructure hi_bob ''12:34''),
             insert_row 2 (destructure hi_all ''12:35'')])"
  using global_direct_partition [of "insert_row 1 (destructure hi_bob ''12:34'')"
      "[(''type'', JStr ''global'')]"
      "[insert_row 1 (destructure hi_bob ''12:34''), insert_row 2 (destructure hi_all ''12:35'')]"]
    global_direct_partition [of "insert_row 2 (destructure hi_all ''12:35'')"
      "[(''me'', JStr ''alice'')]"
      "[insert_row 1 (destructure hi_bob ''12:34''), insert_row 2 (destructure hi_all ''12:35'')]"]
  by (simp add: eval_defs)


section \<open>The canonical record\<close>

text \<open>
  The time the formatter gives for the options of \<^verbatim>\<open>sendMessage\<close>: the local hour
  and the local minute, two digits each, with a colon between them.
\<close>

lemma toLocaleTimeString_hour_minute:
  "toLocaleTimeString offset \<lparr>hour = Some TwoDigit, minute = Some TwoDigit, second = None\<rparr> now =
     two_digit (local_hour offset now) @ '':'' @ two_digit (local_minute offset now)"
  by (simp add: toLocaleTimeString_def)

lemma local_hour_minute_range: "local_hour offset now < 24 \<and> local_minute offset now < 60"
proof -
  have "nat ((int (now div 60000) + offset) mod 1440) < 1440"
    by simp
  then show ?thesis
    unfolding local_hour_def local_minute_def by (simp add: less_mult_imp_div_less)
qed

text \<open>
  Claim C7. The handler of \<^verbatim>\<open>sendMessage\<close> reads the server's clock when the event is
  handled and formats it with the options \<^verbatim>\<open>{ hour: '2-digit', minute: '2-digit' }\<close>:
  the timestamp is the local hour and the local minute, two digits each, with a colon
  between them. A \<^verbatim>\<open>timestamp\<close> property \<open>v\<close> of the payload is never read. When
  the \<^verbatim>\<open>INSERT\<close> that the handler put in flight succeeds, the row stored and the record
  dispatched both carry that timestamp, and the record consists of the id the database
  gave the row, the payload's \<^verbatim>\<open>text\<close>, \<^verbatim>\<open>sender_username\<close>,
  \<^verbatim>\<open>receiver_username\<close>, \<^verbatim>\<open>type\<close> (\<^verbatim>\<open>'text'\<close> when absent) and \<^verbatim>\<open>file_url\<close>
  (\<^verbatim>\<open>null\<close> when absent), and the timestamp.
\<close>

theorem canonical_record:
  assumes "sock \<in> sockets s0"
    and "k < length (pending s)"
    and "pending s ! k =
           last (pending (step (toLocaleTimeString offset) s0
                   (SendMessage sock ((''timestamp'', v) # data) now)))"
  shows "step (toLocaleTimeString offset) s0 (SendMessage sock ((''timestamp'', v) # data) now) =
      s0\<lparr>pending := pending s0 @
           [Run (destructure data
              (two_digit (local_hour offset now) @ '':'' @ two_digit (local_minute offset now)))]\<rparr> \<and>
    local_hour offset now < 24 \<and> local_minute offset now < 60 \<and>
    trace (step (toLocaleTimeString offset) s (Done k True)) = trace s @
      [Inserted
         \<lparr>r_id = next_id s,
          r_text = prepareValue (js_or (get_prop data ''text'') (JStr '''')),
          r_sender_username = prepareValue (get_prop data ''sender_username''),
          r_receiver_username = prepareValue (js_or (get_prop data ''receiver_username'') JNull),
          r_timestamp =
            Some (two_digit (local_hour offset now) @ '':'' @ two_digit (local_minute offset now)),
          r_type = prepareValue (js_default (get_prop data ''type'') (JStr ''text'')),
          r_file_url = prepareValue (js_default (get_prop data ''file_url'') JNull)\<rparr>,
       Emit (if truthy (get_prop data ''receiver_username'')
             then rooms s (get_prop data ''receiver_username'') \<union>
                  rooms s (get_prop data ''sender_username'')
             else sockets s)
         (receiveMessage
            \<lparr>m_id = next_id s,
             m_text = get_prop data ''text'',
             m_sender_username = get_prop data ''sender_username'',
             m_receiver_username = get_prop data ''receiver_username'',
             m_timestamp =
               two_digit (local_hour offset now) @ '':'' @ two_digit (local_minute offset now),
             m_type = js_default (get_prop data ''type'') (JStr ''text''),
             m_file_url = js_default (get_prop data ''file_url'') JNull\<rparr>)]"
proof -
  let ?ts = "two_digit (local_hour offset now) @ '':'' @ two_digit (local_minute offset now)"
  have same: "destructure ((''timestamp'', v) # data) ?ts = destructure data ?ts"
    by (simp add: destructure_def get_prop_def)
  have enq: "step (toLocaleTimeString offset) s0 (SendMessage sock ((''timestamp'', v) # data) now) =
      s0\<lparr>pending := pending s0 @ [Run (destructure data ?ts)]\<rparr>"
    using assms(1) same
    by (simp add: sendMessage_enqueues toLocaleTimeString_hour_minute del: step.simps)
  then have "pending s ! k = Run (destructure data ?ts)"
    using assms(3) by (simp del: step.simps)
  then have "trace (step (toLocaleTimeString offset) s (Done k True)) = trace s @
     [Inserted (insert_row (next_id s) (destructure data ?ts)),
      Emit (if truthy (get_prop data ''receiver_username'')
            then rooms s (get_prop data ''receiver_username'') \<union>
                 rooms s (get_prop data ''sender_username'')
            else sockets s)
           (receiveMessage (new_message (next_id s) (destructure data ?ts)))]"
    using step_Done_Run_ok [OF assms(2), of "destructure data ?ts" "toLocaleTimeString offset"]
    by (simp del: step.simps)
  then show ?thesis
    using enq local_hour_minute_range [of offset now]
    by (simp add: insert_row_def new_message_def del: step.simps)
qed

theorem canonical_record_witness:
  "''X'' \<in> sockets (run (toLocaleTimeString 180) init three_joined) \<and>
   pending (step (toLocaleTimeString 180) (run (toLocaleTimeString 180) init three_joined)
      (SendMessage ''X'' ((''timestamp'', JStr ''23:59'') # photo) 45296000)) ! 0 =
     last (pending (step (toLocaleTimeString 180) (run (toLocaleTimeString 180) init three_joined)
      (SendMessage ''X'' ((''timestamp'', JStr ''23:59'') # photo) 45296000))) \<and>
   local_hour 180 45296000 = 15 \<and> local_minute 180 45296000 = 34 \<and>
   trace (step (toLocaleTimeString 180)
      (step (toLocaleTimeString 180) (run (toLocaleTimeString 180) init three_joined)
        (SendMessage ''X'' ((''timestamp'', JStr ''23:59'') # photo) 45296000)) (Done 0 True)) =
     [Inserted \<lparr>r_id = 1, r_text = Some '''', r_sender_username = Some ''alice'',
                r_receiver_username = Some ''bob'', r_timestamp = Some ''15:34'',
                r_type = Some ''file'', r_file_url = Some ''/uploads/1.png''\<rparr>,
      Emit {''X'', ''Y''}
        (receiveMessage \<lparr>m_id = 1, m_text = JUndefined, m_sender_username = JStr ''alice'',
           m_receiver_username = JStr ''bob'', m_timestamp = ''15:34'',
           m_type = JStr ''file'', m_file_url = JStr ''/uploads/1.png''\<rparr>)]"
  using canonical_record [of "''X''" "run (toLocaleTimeString 180) init three_joined" 0
      "step (toLocaleTimeString 180) (run (toLocaleTimeString 180) init three_joined)
        (SendMessage ''X'' ((''timestamp'', JStr ''23:59'') # photo) 45296000)"
      180 "JStr ''23:59''" photo 45296000]
  by (simp add: eval_defs)

text \<open>
  Claim C10, as the code has it. For a payload whose text is a string, \<^verbatim>\<open>null\<close> or
  absent: when the \<^verbatim>\<open>INSERT\<close> of a \<^verbatim>\<open>sendMessage\<close> succeeds, the text column of the
  row is never \<^verbatim>\<open>NULL\<close>, and a payload text that is absent or \<^verbatim>\<open>null\<close> is stored as
  the empty string. The record dispatched carries the payload's text as it came. The text
  read back from the row differs from the text dispatched exactly when the payload text is
  absent or \<^verbatim>\<open>null\<close>.
\<close>

theorem persisted_text_never_null:
  assumes "k < length (pending s)" and "pending s ! k = Run (destructure data ts)"
  shows "trace (step f s (Done k True)) = trace s @
       [Inserted (insert_row (next_id s) (destructure data ts)),
        Emit (if truthy (get_prop data ''receiver_username'')
              then rooms s (get_prop data ''receiver_username'') \<union>
                   rooms s (get_prop data ''sender_username'')
              else sockets s)
          (receiveMessage (new_message (next_id s) (destructure data ts)))] \<and>
    r_text (insert_row (next_id s) (destructure data ts)) \<noteq> None \<and>
    (get_prop data ''text'' = JUndefined \<or> get_prop data ''text'' = JNull \<longrightarrow>
       r_text (insert_row (next_id s) (destructure data ts)) = Some '''') \<and>
    m_text (new_message (next_id s) (destructure data ts)) = get_prop data ''text'' \<and>
    ((column_value (r_text (insert_row (next_id s) (destructure data ts))) \<noteq>
      m_text (new_message (next_id s) (destructure data ts))) =
     (get_prop data ''text'' = JUndefined \<or> get_prop data ''text'' = JNull))"
proof -
  have "trace (step f s (Done k True)) = trace s @
       [Inserted (insert_row (next_id s) (destructure data ts)),
        Emit (if truthy (get_prop data ''receiver_username'')
              then rooms s (get_prop data ''receiver_username'') \<union>
                   rooms s (get_prop data ''sender_username'')
              else sockets s)
          (receiveMessage (new_message (next_id s) (destructure data ts)))]"
    using step_Done_Run_ok [OF assms, of f] by (simp del: step.simps)
  then show ?thesis
    by (cases "get_prop data ''text''")
       (simp_all add: insert_row_def new_message_def js_or_def del: step.simps)
qed

theorem persisted_text_never_null_witness:
  "pending (run hh_mm init (three_joined @ [SendMessage ''X'' photo 45296000])) ! 0 =
     Run (destructure photo ''12:34'') \<and>
   get_prop photo ''text'' = JUndefined \<and>
   r_text (insert_row
      (next_id (run hh_mm init (three_joined @ [SendMessage ''X'' photo 45296000])))
      (destructure photo ''12:34'')) = Some '''' \<and>
   m_text (new_message
      (next_id (run hh_mm init (three_joined @ [SendMessage ''X'' photo 45296000])))
      (destructure photo ''12:34'')) = JUndefined \<and>
   trace (step hh_mm (run hh_mm init (three_joined @ [SendMessage ''X'' photo 45296000]))
      (Done 0 True)) =
     [Inserted \<lparr>r_id = 1, r_text = Some '''', r_sender_username = Some ''alice'',
                r_receiver_username = Some ''bob'', r_timestamp = Some ''12:34'',
                r_type = Some ''file'', r_file_url = Some ''/uploads/1.png''\<rparr>,
      Emit {''X'', ''Y''}
        (receiveMessage \<lparr>m_id = 1, m_text = JUndefined, m_sender_username = JStr ''alice'',
           m_receiver_username = JStr ''bob'', m_timestamp = ''12:34'',
           m_type = JStr ''file'', m_file_url = JStr ''/uploads/1.png''\<rparr>)]"
  using persisted_text_never_null [of 0
      "run hh_mm init (three_joined @ [SendMessage ''X'' photo 45296000])" photo "''12:34''" hh_mm]
  by (simp add: eval_defs)

text \<open>
  Claim C10 as stated fails for a payload whose text is \<^verbatim>\<open>null\<close>: the property is
  there, so the text is not absent, and yet the row holds the empty string while the
  record dispatched holds \<^verbatim>\<open>null\<close>.
\<close>

theorem persisted_text_counterexample:
  "map_of hi_null ''text'' = Some JNull \<and>
   get_prop hi_null ''text'' \<noteq> JUndefined \<and>
   trace (step hh_mm (run hh_mm init (three_joined @ [SendMessage ''X'' hi_null 45296000]))
      (Done 0 True)) =
     [Inserted \<lparr>r_id = 1, r_text = Some '''', r_sender_username = Some ''alice'',
                r_receiver_username = Some ''bob'', r_timestamp = Some ''12:34'',
                r_type = Some ''file'', r_file_url = Some ''/uploads/2.png''\<rparr>,
      Emit {''X'', ''Y''}
        (receiveMessage \<lparr>m_id = 1, m_text = JNull, m_sender_username = JStr ''alice'',
           m_receiver_username = JStr ''bob'', m_timestamp = ''12:34'',
           m_type = JStr ''file'', m_file_url = JStr ''/uploads/2.png''\<rparr>)] \<and>
   column_value (r_text (insert_row 1 (destructure hi_null ''12:34''))) = JStr '''' \<and>
   m_text (new_message 1 (destructure hi_null ''12:34'')) = JNull \<and>
   column_value (r_text (insert_row 1 (destructure hi_null ''12:34''))) \<noteq>
     m_text (new_message 1 (destructure hi_null ''12:34''))"
  by (simp add: eval_defs)

section \<open>Joining twice\<close>

text \<open>
  Claim C9. A connected socket that joins as \<open>u\<close> and later as \<open>v\<close> is, for as long as it
  does not disconnect, in the room of \<open>u\<close> and in the room of \<open>v\<close>; and every message
  whose sender or receiver is \<open>u\<close>, or is \<open>v\<close>, is dispatched to it when its
  \<^verbatim>\<open>INSERT\<close> succeeds.
\<close>

theorem rejoin_keeps_both:
  assumes conn: "sock \<in> sockets s0"
    and e1: "Disconnect sock \<notin> set evs1" and e2: "Disconnect sock \<notin> set evs2"
    and s: "s = run f s0 (Join sock u # evs1 @ Join sock v # evs2)"
    and k: "k < length (pending s)" "pending s ! k = Run c"
    and c: "c_sender_username c = u \<or> c_receiver_username c = u \<or>
            c_sender_username c = v \<or> c_receiver_username c = v"
  shows "sock \<in> rooms s u \<and> sock \<in> rooms s v \<and>
    (\<exists>T. trace (step f s (Done k True)) = trace s @
       [Inserted (insert_row (next_id s) c),
        Emit T (receiveMessage (new_message (next_id s) c))] \<and> sock \<in> T)"
proof -
  let ?s1 = "step f s0 (Join sock u)"
  let ?s2 = "run f ?s1 evs1"
  let ?s3 = "step f ?s2 (Join sock v)"
  have s_eq: "s = run f ?s3 evs2"
    by (simp add: s run_Cons run_append del: step.simps)
  have "sock \<in> sockets ?s1"
    using conn by (simp add: step_keeps_socket del: step.simps)
  then have c2: "sock \<in> sockets ?s2"
    using e1 by (rule run_keeps_socket)
  then have "sock \<in> sockets ?s3"
    by (simp add: step_keeps_socket del: step.simps)
  then have live: "sock \<in> sockets s"
    unfolding s_eq using e2 by (rule run_keeps_socket)
  have "sock \<in> rooms ?s1 u"
    using conn by (rule join_rooms)
  then have "sock \<in> rooms ?s2 u"
    using e1 by (rule run_keeps_room)
  then have "sock \<in> rooms ?s3 u"
    by (simp add: step_keeps_room del: step.simps)
  then have u: "sock \<in> rooms s u"
    unfolding s_eq using e2 by (rule run_keeps_room)
  have "sock \<in> rooms ?s3 v"
    using c2 by (rule join_rooms)
  then have v: "sock \<in> rooms s v"
    unfolding s_eq using e2 by (rule run_keeps_room)
  have "sock \<in> (if truthy (c_receiver_username c)
            then rooms s (c_receiver_username c) \<union> rooms s (c_sender_username c)
            else sockets s)"
    using c u v live by auto
  with u v show ?thesis
    using step_Done_Run_ok [OF k, of f] by blast
qed

theorem rejoin_keeps_both_witness:
  "''X'' \<in> sockets (run hh_mm init [Connect ''X'', Connect ''Y'']) \<and>
   Disconnect ''X'' \<notin> set [Join ''Y'' (JStr ''carol'')] \<and>
   Disconnect ''X'' \<notin> set [SendMessage ''Y'' [(''text'', JStr ''hey''),
       (''sender_username'', JStr ''carol''), (''receiver_username'', JStr ''alice'')] 45296000] \<and>
   c_receiver_username (destructure [(''text'', JStr ''hey''),
       (''sender_username'', JStr ''carol''), (''receiver_username'', JStr ''alice'')] ''12:34'') =
     JStr ''alice'' \<and>
   ''X'' \<in> rooms (run hh_mm (run hh_mm init [Connect ''X'', Connect ''Y''])
       (Join ''X'' (JStr ''alice'') # [Join ''Y'' (JStr ''carol'')] @ Join ''X'' (JStr ''bob'') #
        [SendMessage ''Y'' [(''text'', JStr ''hey''),
          (''sender_username'', JStr ''carol''), (''receiver_username'', JStr ''alice'')] 45296000]))
     (JStr ''alice'') \<and>
   ''X'' \<in> rooms (run hh_mm (run hh_mm init [Connect ''X'', Connect ''Y''])
       (Join ''X'' (JStr ''alice'') # [Join ''Y'' (JStr ''carol'')] @ Join ''X'' (JStr ''bob'') #
        [SendMessage ''Y'' [(''text'', JStr ''hey''),
          (''sender_username'', JStr ''carol''), (''receiver_username'', JStr ''alice'')] 45296000]))
     (JStr ''bob'') \<and>
   trace (step hh_mm (run hh_mm (run hh_mm init [Connect ''X'', Connect ''Y''])
       (Join ''X'' (JStr ''alice'') # [Join ''Y'' (JStr ''carol'')] @ Join ''X'' (JStr ''bob'') #
        [SendMessage ''Y'' [(''text'', JStr ''hey''),
          (''sender_username'', JStr ''carol''), (''receiver_username'', JStr ''alice'')] 45296000]))
       (Done 0 True)) =
     [Inserted \<lparr>r_id = 1, r_text = Some ''hey'', r_sender_username = Some ''carol'',
                r_receiver_username = Some ''alice'', r_timestamp = Some ''12:34'',
                r_type = Some ''text'', r_file_url = None\<rparr>,
      Emit {''X'', ''Y''}
        (receiveMessage \<lparr>m_id = 1, m_text = JStr ''hey'', m_sender_username = JStr ''carol'',
           m_receiver_username = JStr ''alice'', m_timestamp = ''12:34'',
           m_type = JStr ''text'', m_file_url = JNull\<rparr>)]"
  using rejoin_keeps_both [of "''X''" "run hh_mm init [Connect ''X'', Connect ''Y'']"
      "[Join ''Y'' (JStr ''carol'')]"
      "[SendMessage ''Y'' [(''text'', JStr ''hey''),
          (''sender_username'', JStr ''carol''), (''receiver_username'', JStr ''alice'')] 45296000]"
      "run hh_mm (run hh_mm init [Connect ''X'', Connect ''Y''])
       (Join ''X'' (JStr ''alice'') # [Join ''Y'' (JStr ''carol'')] @ Join ''X'' (JStr ''bob'') #
        [SendMessage ''Y'' [(''text'', JStr ''hey''),
          (''sender_username'', JStr ''carol''), (''receiver_username'', JStr ''alice'')] 45296000])"
      hh_mm "JStr ''alice''" "JStr ''bob''" 0
      "destructure [(''text'', JStr ''hey''),
       (''sender_username'', JStr ''carol''), (''receiver_username'', JStr ''alice'')] ''12:34''"]
  by (simp add: eval_defs) auto

end
